theory Spec2Isabelle
  imports Main "HOL-Library.Word"
begin

section \<open>Python values\<close>

text \<open>
  The storage wrapper of \<^verbatim>\<open>edtech/courses/storage.py\<close> handles dynamically typed
  values: bucket names that may be \<^verbatim>\<open>None\<close>, configuration values, and the entries
  of the dictionary the storage client answers with. They are the values of \<open>pyval\<close>.
  A byte payload is a list of 8-bit words.
\<close>

type_synonym bytes = "8 word list"

datatype pyval = PNone | PBool bool | PInt int | PStr string

text \<open>Python's truth value: \<^verbatim>\<open>None\<close>, \<^verbatim>\<open>False\<close>, \<^verbatim>\<open>0\<close> and \<^verbatim>\<open>""\<close> are falsy.\<close>

fun truthy :: "pyval \<Rightarrow> bool" where
  "truthy PNone = False"
| "truthy (PBool b) = b"
| "truthy (PInt i) = (i \<noteq> 0)"
| "truthy (PStr s) = (s \<noteq> [])"

text \<open>\<^verbatim>\<open>a or b\<close>: the left operand when it is truthy, the right operand otherwise.\<close>

definition py_or :: "pyval \<Rightarrow> pyval \<Rightarrow> pyval" where
  "py_or a b = (if truthy a then a else b)"

type_synonym pydict = "string \<rightharpoonup> pyval"

text \<open>\<^verbatim>\<open>d.get(k)\<close>: the value stored under \<open>k\<close>, \<^verbatim>\<open>None\<close> when the key is absent.\<close>

definition dict_get :: "pydict \<Rightarrow> string \<Rightarrow> pyval" where
  "dict_get d k = (case d k of None \<Rightarrow> PNone | Some v \<Rightarrow> v)"

section \<open>Configuration, the storage client and the world\<close>

text \<open>
  \<^verbatim>\<open>django.conf.settings\<close> is not part of the fragment; the three values the module
  reads from it are the fields of a record that every operation takes as a parameter.
\<close>

record settings =
  SUPABASE_URL :: pyval
  SUPABASE_SERVICE_ROLE :: pyval
  SUPABASE_BUCKET :: pyval

text \<open>
  The two requests the module sends through the client:
  \<^verbatim>\<open>_client.storage.from_(bucket).upload(path, data, options)\<close> and
  \<^verbatim>\<open>_client.storage.from_(bucket).create_signed_url(path, expires)\<close>.
  The first component is the bucket handed to \<^verbatim>\<open>from_\<close>.
\<close>

datatype request =
  Upload pyval string bytes pydict
| CreateSignedUrl pyval string int

text \<open>
  What happens to clients, in the order it happens: a client is constructed from a URL
  and a key, a request is sent through the client with a given handle, a client is torn
  down.
\<close>

datatype event =
  Create pyval pyval
| Call nat request
| Teardown nat

text \<open>
  The client library and the hosted service behind it are external. Their behaviour is
  a parameter: for each entry point, whether it raises (\<open>Inl\<close>, with the error raised)
  or returns, and how the remote state \<open>'st\<close> changes. The error type \<open>'e\<close> is the
  service's own.
\<close>

record ('st, 'e) service =
  on_create :: "pyval \<Rightarrow> pyval \<Rightarrow> 'e option"
  on_upload :: "pyval \<Rightarrow> string \<Rightarrow> bytes \<Rightarrow> pydict \<Rightarrow> 'st \<Rightarrow> ('e + unit) \<times> 'st"
  on_create_signed_url :: "pyval \<Rightarrow> string \<Rightarrow> int \<Rightarrow> 'st \<Rightarrow> ('e + pydict) \<times> 'st"

record 'st world =
  events :: "event list"
  remote :: 'st

text \<open>The module's global state: the handle bound to \<^verbatim>\<open>_client\<close>.\<close>

record storage_module =
  client :: nat

fun is_Create :: "event \<Rightarrow> bool" where
  "is_Create (Create url key) = True"
| "is_Create (Call c r) = False"
| "is_Create (Teardown c) = False"

text \<open>
  \<^verbatim>\<open>create_client(url, key)\<close>: logs the construction; the new client's handle is the
  number of clients constructed before it.
\<close>

definition create_client ::
  "('st, 'e) service \<Rightarrow> pyval \<Rightarrow> pyval \<Rightarrow> 'st world \<Rightarrow> ('e + nat) \<times> 'st world" where
  "create_client srv url key w =
     (let w' = w\<lparr>events := events w @ [Create url key]\<rparr>
      in case on_create srv url key of
           Some e \<Rightarrow> (Inl e, w')
         | None \<Rightarrow> (Inr (length (filter is_Create (events w))), w'))"

definition client_upload ::
  "('st, 'e) service \<Rightarrow> nat \<Rightarrow> pyval \<Rightarrow> string \<Rightarrow> bytes \<Rightarrow> pydict \<Rightarrow> 'st world
     \<Rightarrow> ('e + unit) \<times> 'st world" where
  "client_upload srv c bucket path payload opts w =
     (case on_upload srv bucket path payload opts (remote w) of
        (r, s') \<Rightarrow>
          (r, \<lparr>events = events w @ [Call c (Upload bucket path payload opts)], remote = s'\<rparr>))"

definition client_create_signed_url ::
  "('st, 'e) service \<Rightarrow> nat \<Rightarrow> pyval \<Rightarrow> string \<Rightarrow> int \<Rightarrow> 'st world
     \<Rightarrow> ('e + pydict) \<times> 'st world" where
  "client_create_signed_url srv c bucket path expires w =
     (case on_create_signed_url srv bucket path expires (remote w) of
        (r, s') \<Rightarrow>
          (r, \<lparr>events = events w @ [Call c (CreateSignedUrl bucket path expires)], remote = s'\<rparr>))"

section \<open>The storage module\<close>

text \<open>
  Module load:
  \<^verbatim>\<open>_client = create_client(settings.SUPABASE_URL, settings.SUPABASE_SERVICE_ROLE)\<close>.
  When \<^verbatim>\<open>create_client\<close> raises, the import fails and there is no module.
\<close>

definition load_storage ::
  "settings \<Rightarrow> ('st, 'e) service \<Rightarrow> 'st world \<Rightarrow> ('e + storage_module) \<times> 'st world" where
  "load_storage st srv w =
     (case create_client srv (SUPABASE_URL st) (SUPABASE_SERVICE_ROLE st) w of
        (Inl e, w') \<Rightarrow> (Inl e, w')
      | (Inr c, w') \<Rightarrow> (Inr \<lparr>client = c\<rparr>, w'))"

text \<open>
  \<^verbatim>\<open>def upload_bytes(path_in_bucket: str, data: bytes, bucket: str = None)\<close>.
  An omitted \<^verbatim>\<open>bucket\<close> argument is \<open>None\<close> and takes the default \<^verbatim>\<open>None\<close>.
  No \<^verbatim>\<open>try\<close> surrounds the client call: what it raises leaves the function.
\<close>

definition upload_bytes ::
  "settings \<Rightarrow> ('st, 'e) service \<Rightarrow> storage_module \<Rightarrow> string \<Rightarrow> bytes \<Rightarrow> pyval option
     \<Rightarrow> 'st world \<Rightarrow> ('e + string) \<times> 'st world" where
  "upload_bytes st srv m path_in_bucket payload bucket_arg w =
     (let bucket = (case bucket_arg of None \<Rightarrow> PNone | Some b \<Rightarrow> b);
          bucket = py_or bucket (SUPABASE_BUCKET st)
      in case client_upload srv (client m) bucket path_in_bucket payload
                [''upsert'' \<mapsto> PBool True] w of
           (Inl e, w') \<Rightarrow> (Inl e, w')
         | (Inr u, w') \<Rightarrow> (Inr path_in_bucket, w'))"

text \<open>
  \<^verbatim>\<open>def signed_url(path_in_bucket: str, expires_sec: int = 60, bucket: str = None)\<close>.
  An omitted \<^verbatim>\<open>expires_sec\<close> is \<open>None\<close> and takes the default 60. The result is
  \<^verbatim>\<open>res.get("signedURL") or res.get("signed_url")\<close>.
\<close>

definition signed_url ::
  "settings \<Rightarrow> ('st, 'e) service \<Rightarrow> storage_module \<Rightarrow> string \<Rightarrow> int option \<Rightarrow> pyval option
     \<Rightarrow> 'st world \<Rightarrow> ('e + pyval) \<times> 'st world" where
  "signed_url st srv m path_in_bucket expires_arg bucket_arg w =
     (let expires_sec = (case expires_arg of None \<Rightarrow> 60 | Some n \<Rightarrow> n);
          bucket = (case bucket_arg of None \<Rightarrow> PNone | Some b \<Rightarrow> b);
          bucket = py_or bucket (SUPABASE_BUCKET st)
      in case client_create_signed_url srv (client m) bucket path_in_bucket expires_sec w of
           (Inl e, w') \<Rightarrow> (Inl e, w')
         | (Inr res, w') \<Rightarrow>
             (Inr (py_or (dict_get res ''signedURL'') (dict_get res ''signed_url'')), w'))"

section \<open>A process using the module\<close>

text \<open>
  A process imports the module once (Python caches the imported module) and then calls
  its two functions any number of times, in any order and with any arguments. A call
  that raises does not end the process: the caller may handle the error and go on.
\<close>

datatype invocation =
  UploadBytes string bytes "pyval option"
| SignedUrl string "int option" "pyval option"

fun invoke ::
  "settings \<Rightarrow> ('st, 'e) service \<Rightarrow> storage_module \<Rightarrow> invocation \<Rightarrow> 'st world
     \<Rightarrow> ('e + pyval) \<times> 'st world" where
  "invoke st srv m (UploadBytes p payload b) w =
     (case upload_bytes st srv m p payload b w of
        (Inl e, w') \<Rightarrow> (Inl e, w')
      | (Inr q, w') \<Rightarrow> (Inr (PStr q), w'))"
| "invoke st srv m (SignedUrl p n b) w = signed_url st srv m p n b w"

fun run ::
  "settings \<Rightarrow> ('st, 'e) service \<Rightarrow> storage_module \<Rightarrow> invocation list \<Rightarrow> 'st world
     \<Rightarrow> ('e + pyval) list \<times> 'st world" where
  "run st srv m [] w = ([], w)"
| "run st srv m (i # is) w =
     (case invoke st srv m i w of
        (r, w') \<Rightarrow> (case run st srv m is w' of (rs, w'') \<Rightarrow> (r # rs, w'')))"

definition process ::
  "settings \<Rightarrow> ('st, 'e) service \<Rightarrow> invocation list \<Rightarrow> 'st
     \<Rightarrow> ('e + ('e + pyval) list) \<times> 'st world" where
  "process st srv is s0 =
     (case load_storage st srv \<lparr>events = [], remote = s0\<rparr> of
        (Inl e, w) \<Rightarrow> (Inl e, w)
      | (Inr m, w) \<Rightarrow> (case run st srv m is w of (rs, w') \<Rightarrow> (Inr rs, w')))"

section \<open>Stand-ins for the storage service\<close>

text \<open>
  The client library is not part of the repository, so nothing below describes it. Two
  stand-ins instantiate theorems that are stated for every service.

  The first is an in-memory store, used to run the module on concrete inputs. Objects
  live under (bucket, path). An upload larger than \<open>max_size\<close> is refused; an upload
  onto an existing object is refused unless the options carry a truthy \<^verbatim>\<open>upsert\<close>,
  and replaces the object when they do. A signed URL is only issued for an existing
  object; \<open>sign\<close> gives the dictionary answered for a path. It accepts any truthy value
  under \<^verbatim>\<open>upsert\<close>, the Python \<^verbatim>\<open>True\<close> included, which a client need not do.
\<close>

datatype fake_error = TooLarge | Duplicate | NotFound

type_synonym fake_store = "pyval \<times> string \<rightharpoonup> bytes"

definition fake_service :: "nat \<Rightarrow> (string \<Rightarrow> pydict) \<Rightarrow> (fake_store, fake_error) service" where
  "fake_service max_size sign =
     \<lparr>on_create = (\<lambda>url key. None),
      on_upload = (\<lambda>bucket path payload opts s.
         if max_size < length payload then (Inl TooLarge, s)
         else if s (bucket, path) \<noteq> None \<and> \<not> truthy (dict_get opts ''upsert'')
           then (Inl Duplicate, s)
         else (Inr (), s((bucket, path) \<mapsto> payload))),
      on_create_signed_url = (\<lambda>bucket path expires s.
         case s (bucket, path) of
           None \<Rightarrow> (Inl NotFound, s)
         | Some payload \<Rightarrow> (Inr (sign path), s))\<rparr>"

definition test_settings :: settings where
  "test_settings =
     \<lparr>SUPABASE_URL = PStr ''https://project.supabase.co'',
      SUPABASE_SERVICE_ROLE = PStr ''service-role-key'',
      SUPABASE_BUCKET = PStr ''pdfs''\<rparr>"

definition empty_world :: "fake_store world" where
  "empty_world = \<lparr>events = [], remote = Map.empty\<rparr>"

text \<open>A world where \<^verbatim>\<open>lesson.pdf\<close> already exists in the default bucket.\<close>

definition stocked_world :: "fake_store world" where
  "stocked_world =
     \<lparr>events = [Create (PStr ''https://project.supabase.co'') (PStr ''service-role-key'')],
      remote = [(PStr ''pdfs'', ''lesson.pdf'') \<mapsto> [1, 2, 3]]\<rparr>"



section \<open>The admin module\<close>

text \<open>
  \<^verbatim>\<open>edtech/courses/admin.py\<close> declares two classes and registers five models with
  \<^verbatim>\<open>admin.site\<close>. The model classes come from modules outside the fragment and are
  used as names only; \<open>OtherModel\<close> stands for a model another application has
  registered with the same site. The site is the list of (model, admin class) pairs in the order
  of registration. Django's \<^verbatim>\<open>register\<close> uses the plain \<^verbatim>\<open>ModelAdmin\<close> when no
  admin class is given and raises \<^verbatim>\<open>AlreadyRegistered\<close> for a model that is already
  in the site.
\<close>

datatype model = PDFDocument | Course | Lesson | LessonPDF | Enrollment | OtherModel string

datatype inline_base = TabularInline | StackedInline

record inline_admin =
  base :: inline_base
  inline_model :: model
  extra :: nat

record model_admin =
  list_display :: "string list"
  inlines :: "inline_admin list"

definition LessonPDFInline :: inline_admin where
  "LessonPDFInline = \<lparr>base = TabularInline, inline_model = LessonPDF, extra = 1\<rparr>"

definition LessonAdmin :: model_admin where
  "LessonAdmin =
     \<lparr>list_display = [''title'', ''course'', ''created_at''], inlines = [LessonPDFInline]\<rparr>"

text \<open>Django's own defaults for a \<^verbatim>\<open>ModelAdmin\<close> that overrides nothing.\<close>

definition ModelAdmin :: model_admin where
  "ModelAdmin = \<lparr>list_display = [''__str__''], inlines = []\<rparr>"

datatype admin_error = AlreadyRegistered model

type_synonym admin_site = "(model \<times> model_admin) list"

definition register :: "model \<Rightarrow> model_admin option \<Rightarrow> admin_site \<Rightarrow> admin_error + admin_site" where
  "register mdl admin_class site =
     (let admin_class = (case admin_class of None \<Rightarrow> ModelAdmin | Some a \<Rightarrow> a)
      in if mdl \<in> set (map fst site) then Inl (AlreadyRegistered mdl)
         else Inr (site @ [(mdl, admin_class)]))"

text \<open>The five \<^verbatim>\<open>admin.site.register\<close> statements, in order; the first that raises ends the import.\<close>

definition admin_module :: "admin_site \<Rightarrow> admin_error + admin_site" where
  "admin_module site =
     (case register PDFDocument None site of Inl e \<Rightarrow> Inl e | Inr s1 \<Rightarrow>
     (case register Course None s1 of Inl e \<Rightarrow> Inl e | Inr s2 \<Rightarrow>
     (case register Lesson (Some LessonAdmin) s2 of Inl e \<Rightarrow> Inl e | Inr s3 \<Rightarrow>
     (case register LessonPDF None s3 of Inl e \<Rightarrow> Inl e | Inr s4 \<Rightarrow>
      register Enrollment None s4))))"

section \<open>Basic facts\<close>

lemma py_or_None [simp]: "py_or PNone b = b"
  by (simp add: py_or_def)

lemma py_or_truthy [simp]: "truthy a \<Longrightarrow> py_or a b = a"
  by (simp add: py_or_def)

lemma py_or_falsy [simp]: "\<not> truthy a \<Longrightarrow> py_or a b = b"
  by (simp add: py_or_def)

lemma dict_get_Some [simp]: "d k = Some v \<Longrightarrow> dict_get d k = v"
  by (simp add: dict_get_def)

lemma dict_get_None [simp]: "d k = None \<Longrightarrow> dict_get d k = PNone"
  by (simp add: dict_get_def)

text \<open>What one call of \<open>upload_bytes\<close> does, in terms of the service's answer.\<close>

lemma upload_bytes_result:
  "fst (upload_bytes st srv m p payload b w) =
     (case fst (on_upload srv (py_or (case b of None \<Rightarrow> PNone | Some x \<Rightarrow> x) (SUPABASE_BUCKET st))
                  p payload [''upsert'' \<mapsto> PBool True] (remote w)) of
        Inl e \<Rightarrow> Inl e
      | Inr u \<Rightarrow> Inr p)"
  by (simp add: upload_bytes_def client_upload_def Let_def split: prod.splits sum.splits)

lemma upload_bytes_events:
  "events (snd (upload_bytes st srv m p payload b w)) =
     events w @ [Call (client m)
       (Upload (py_or (case b of None \<Rightarrow> PNone | Some x \<Rightarrow> x) (SUPABASE_BUCKET st))
          p payload [''upsert'' \<mapsto> PBool True])]"
  by (simp add: upload_bytes_def client_upload_def Let_def split: prod.splits sum.splits)

lemma upload_bytes_remote:
  "remote (snd (upload_bytes st srv m p payload b w)) =
     snd (on_upload srv (py_or (case b of None \<Rightarrow> PNone | Some x \<Rightarrow> x) (SUPABASE_BUCKET st))
            p payload [''upsert'' \<mapsto> PBool True] (remote w))"
  by (simp add: upload_bytes_def client_upload_def Let_def split: prod.splits sum.splits)

text \<open>The same for \<open>signed_url\<close>.\<close>

lemma signed_url_result:
  "fst (signed_url st srv m p n b w) =
     (case fst (on_create_signed_url srv
                  (py_or (case b of None \<Rightarrow> PNone | Some x \<Rightarrow> x) (SUPABASE_BUCKET st))
                  p (case n of None \<Rightarrow> 60 | Some k \<Rightarrow> k) (remote w)) of
        Inl e \<Rightarrow> Inl e
      | Inr res \<Rightarrow> Inr (py_or (dict_get res ''signedURL'') (dict_get res ''signed_url'')))"
  by (simp add: signed_url_def client_create_signed_url_def Let_def split: prod.splits sum.splits)

lemma signed_url_events:
  "events (snd (signed_url st srv m p n b w)) =
     events w @ [Call (client m)
       (CreateSignedUrl (py_or (case b of None \<Rightarrow> PNone | Some x \<Rightarrow> x) (SUPABASE_BUCKET st))
          p (case n of None \<Rightarrow> 60 | Some k \<Rightarrow> k))]"
  by (simp add: signed_url_def client_create_signed_url_def Let_def split: prod.splits sum.splits)

lemma signed_url_remote:
  "remote (snd (signed_url st srv m p n b w)) =
     snd (on_create_signed_url srv
            (py_or (case b of None \<Rightarrow> PNone | Some x \<Rightarrow> x) (SUPABASE_BUCKET st))
            p (case n of None \<Rightarrow> 60 | Some k \<Rightarrow> k) (remote w))"
  by (simp add: signed_url_def client_create_signed_url_def Let_def split: prod.splits sum.splits)

text \<open>
  Every call of either function appends one request, sent through the module's client, to
  the log, and so does every run of calls.
\<close>

lemma invoke_events:
  "\<exists>req. events (snd (invoke st srv m i w)) = events w @ [Call (client m) req]"
proof (cases i)
  case (UploadBytes p payload b)
  have "events (snd (invoke st srv m (UploadBytes p payload b) w))
          = events (snd (upload_bytes st srv m p payload b w))"
    by (simp split: prod.splits sum.splits)
  with UploadBytes show ?thesis
    by (simp add: upload_bytes_events)
next
  case (SignedUrl p n b)
  then show ?thesis
    by (simp add: signed_url_events)
qed

lemma run_events:
  "\<exists>reqs. events (snd (run st srv m is w)) = events w @ map (Call (client m)) reqs
           \<and> length reqs = length is"
proof (induction "is" arbitrary: w)
  case Nil
  show ?case by simp
next
  case (Cons i "is")
  obtain req where one: "events (snd (invoke st srv m i w)) = events w @ [Call (client m) req]"
    using invoke_events by blast
  obtain reqs where rest:
    "events (snd (run st srv m is (snd (invoke st srv m i w))))
       = events (snd (invoke st srv m i w)) @ map (Call (client m)) reqs"
    "length reqs = length is"
    using Cons.IH by blast
  have "snd (run st srv m (i # is) w) = snd (run st srv m is (snd (invoke st srv m i w)))"
    by (simp split: prod.splits)
  with one rest have
    "events (snd (run st srv m (i # is) w)) = events w @ map (Call (client m)) (req # reqs)
       \<and> length (req # reqs) = length (i # is)"
    by simp
  then show ?case by blast
qed

section \<open>The claims\<close>

text \<open>
  In the statements below, \<open>bucket\<close> is the bucket after the first line of either
  function (\<^verbatim>\<open>bucket = bucket or settings.SUPABASE_BUCKET\<close>), \<open>ttl\<close> the
  value of \<^verbatim>\<open>expires_sec\<close> after the default has been applied, and \<open>opts\<close>
  the options dictionary \<^verbatim>\<open>{"upsert": True}\<close>.
\<close>

text \<open>
  C1. When the client answers with a dictionary, \<open>signed_url\<close> returns the URL string
  found under \<^verbatim>\<open>signedURL\<close>, returns the one found under \<^verbatim>\<open>signed_url\<close> when the
  first key is absent, and returns \<^verbatim>\<open>None\<close> when neither key is present.
\<close>

theorem signed_url_accepts_both_spellings:
  assumes bucket: "bucket = py_or (case b of None \<Rightarrow> PNone | Some x \<Rightarrow> x) (SUPABASE_BUCKET st)"
    and ttl: "ttl = (case n of None \<Rightarrow> 60 | Some k \<Rightarrow> k)"
    and answer: "fst (on_create_signed_url srv bucket p ttl (remote w)) = Inr res"
  shows "(res ''signedURL'' = Some (PStr u) \<and> u \<noteq> [] \<longrightarrow>
            fst (signed_url st srv m p n b w) = Inr (PStr u))
       \<and> (res ''signedURL'' = None \<and> res ''signed_url'' = Some (PStr u) \<longrightarrow>
            fst (signed_url st srv m p n b w) = Inr (PStr u))
       \<and> (res ''signedURL'' = None \<and> res ''signed_url'' = None \<longrightarrow>
            fst (signed_url st srv m p n b w) = Inr PNone)"
  using answer unfolding bucket ttl
  by (simp add: signed_url_result)

theorem signed_url_accepts_both_spellings_witness:
  "fst (signed_url test_settings
          (fake_service 10 (\<lambda>p. [''signedURL'' \<mapsto> PStr (''https://cdn/'' @ p)]))
          \<lparr>client = 0\<rparr> ''lesson.pdf'' None None stocked_world)
     = Inr (PStr ''https://cdn/lesson.pdf'')
   \<and> fst (signed_url test_settings
          (fake_service 10 (\<lambda>p. [''signed_url'' \<mapsto> PStr (''https://cdn/'' @ p)]))
          \<lparr>client = 0\<rparr> ''lesson.pdf'' None None stocked_world)
     = Inr (PStr ''https://cdn/lesson.pdf'')
   \<and> fst (signed_url test_settings
          (fake_service 10 (\<lambda>p. Map.empty))
          \<lparr>client = 0\<rparr> ''lesson.pdf'' None None stocked_world)
     = Inr PNone"
proof -
  have a: "fst (on_create_signed_url (fake_service 10 sign) (PStr ''pdfs'') ''lesson.pdf'' 60
                  (remote stocked_world)) = Inr (sign ''lesson.pdf'')" for sign
    by (simp add: fake_service_def stocked_world_def)
  have b: "PStr ''pdfs'' = py_or (case None of None \<Rightarrow> PNone | Some x \<Rightarrow> x)
                              (SUPABASE_BUCKET test_settings)"
    by (simp add: test_settings_def)
  have c: "(60::int) = (case None of None \<Rightarrow> 60 | Some k \<Rightarrow> k)"
    by simp
  show ?thesis
    using signed_url_accepts_both_spellings [where m = "\<lparr>client = 0\<rparr>"
            and u = "''https://cdn/lesson.pdf''", OF b c
            a [of "\<lambda>p. [''signedURL'' \<mapsto> PStr (''https://cdn/'' @ p)]"]]
          signed_url_accepts_both_spellings [where m = "\<lparr>client = 0\<rparr>"
            and u = "''https://cdn/lesson.pdf''", OF b c
            a [of "\<lambda>p. [''signed_url'' \<mapsto> PStr (''https://cdn/'' @ p)]"]]
          signed_url_accepts_both_spellings [where m = "\<lparr>client = 0\<rparr>"
            and u = "[]", OF b c a [of "\<lambda>p. Map.empty"]]
    by simp
qed

text \<open>
  C2, as stated, fails: a bucket argument that is passed explicitly but is the empty
  string is not used; the request goes to the configured default bucket.
\<close>

theorem explicit_empty_bucket_counterexample:
  "events (snd (upload_bytes test_settings (fake_service 10 (\<lambda>p. Map.empty)) \<lparr>client = 0\<rparr>
      ''lesson.pdf'' [7] (Some (PStr [])) empty_world))
     = [Call 0 (Upload (PStr ''pdfs'') ''lesson.pdf'' [7] [''upsert'' \<mapsto> PBool True])]
   \<and> events (snd (upload_bytes test_settings (fake_service 10 (\<lambda>p. Map.empty)) \<lparr>client = 0\<rparr>
      ''lesson.pdf'' [7] (Some (PStr [])) empty_world))
     \<noteq> [Call 0 (Upload (PStr []) ''lesson.pdf'' [7] [''upsert'' \<mapsto> PBool True])]
   \<and> events (snd (signed_url test_settings (fake_service 10 (\<lambda>p. Map.empty)) \<lparr>client = 0\<rparr>
      ''lesson.pdf'' (Some 30) (Some (PStr [])) empty_world))
     = [Call 0 (CreateSignedUrl (PStr ''pdfs'') ''lesson.pdf'' 30)]
   \<and> events (snd (signed_url test_settings (fake_service 10 (\<lambda>p. Map.empty)) \<lparr>client = 0\<rparr>
      ''lesson.pdf'' (Some 30) (Some (PStr [])) empty_world))
     \<noteq> [Call 0 (CreateSignedUrl (PStr []) ''lesson.pdf'' 30)]"
  by (simp add: upload_bytes_events signed_url_events test_settings_def empty_world_def)

text \<open>
  C2, amended. Both functions use \<^verbatim>\<open>settings.SUPABASE_BUCKET\<close> when no bucket argument is
  supplied and when the supplied one is falsy (\<^verbatim>\<open>None\<close>, the empty string), and use
  the supplied bucket whenever it is truthy (a non-empty string).
\<close>

theorem bucket_default_or_explicit:
  assumes ttl: "ttl = (case n of None \<Rightarrow> 60 | Some k \<Rightarrow> k)"
    and opts: "opts = [''upsert'' \<mapsto> PBool True]"
  shows "events (snd (upload_bytes st srv m p payload None w))
           = events w @ [Call (client m) (Upload (SUPABASE_BUCKET st) p payload opts)]
       \<and> events (snd (signed_url st srv m p n None w))
           = events w @ [Call (client m) (CreateSignedUrl (SUPABASE_BUCKET st) p ttl)]
       \<and> (truthy x \<longrightarrow>
            events (snd (upload_bytes st srv m p payload (Some x) w))
              = events w @ [Call (client m) (Upload x p payload opts)]
          \<and> events (snd (signed_url st srv m p n (Some x) w))
              = events w @ [Call (client m) (CreateSignedUrl x p ttl)])
       \<and> (\<not> truthy x \<longrightarrow>
            events (snd (upload_bytes st srv m p payload (Some x) w))
              = events w @ [Call (client m) (Upload (SUPABASE_BUCKET st) p payload opts)]
          \<and> events (snd (signed_url st srv m p n (Some x) w))
              = events w @ [Call (client m) (CreateSignedUrl (SUPABASE_BUCKET st) p ttl)])"
  unfolding ttl opts
  by (simp add: upload_bytes_events signed_url_events)

theorem bucket_default_or_explicit_witness:
  "events (snd (upload_bytes test_settings (fake_service 10 (\<lambda>p. Map.empty)) \<lparr>client = 0\<rparr>
      ''lesson.pdf'' [7] None empty_world))
     = [Call 0 (Upload (PStr ''pdfs'') ''lesson.pdf'' [7] [''upsert'' \<mapsto> PBool True])]
   \<and> events (snd (signed_url test_settings (fake_service 10 (\<lambda>p. Map.empty)) \<lparr>client = 0\<rparr>
      ''lesson.pdf'' (Some 30) None empty_world))
     = [Call 0 (CreateSignedUrl (PStr ''pdfs'') ''lesson.pdf'' 30)]
   \<and> events (snd (upload_bytes test_settings (fake_service 10 (\<lambda>p. Map.empty)) \<lparr>client = 0\<rparr>
      ''lesson.pdf'' [7] (Some (PStr ''videos'')) empty_world))
     = [Call 0 (Upload (PStr ''videos'') ''lesson.pdf'' [7] [''upsert'' \<mapsto> PBool True])]
   \<and> events (snd (signed_url test_settings (fake_service 10 (\<lambda>p. Map.empty)) \<lparr>client = 0\<rparr>
      ''lesson.pdf'' (Some 30) (Some (PStr ''videos'')) empty_world))
     = [Call 0 (CreateSignedUrl (PStr ''videos'') ''lesson.pdf'' 30)]
   \<and> events (snd (upload_bytes test_settings (fake_service 10 (\<lambda>p. Map.empty)) \<lparr>client = 0\<rparr>
      ''lesson.pdf'' [7] (Some PNone) empty_world))
     = [Call 0 (Upload (PStr ''pdfs'') ''lesson.pdf'' [7] [''upsert'' \<mapsto> PBool True])]"
proof -
  have c: "(30::int) = (case Some 30 of None \<Rightarrow> 60 | Some k \<Rightarrow> k)"
    by simp
  have t: "truthy (PStr ''videos'')" and f: "\<not> truthy PNone"
    by simp_all
  show ?thesis
    using t f
      bucket_default_or_explicit [where st = test_settings
        and srv = "fake_service 10 (\<lambda>p. Map.empty)" and m = "\<lparr>client = 0\<rparr>"
        and p = "''lesson.pdf''" and payload = "[7]" and w = empty_world
        and x = "PStr ''videos''", OF c refl]
      bucket_default_or_explicit [where st = test_settings
        and srv = "fake_service 10 (\<lambda>p. Map.empty)" and m = "\<lparr>client = 0\<rparr>"
        and p = "''lesson.pdf''" and payload = "[7]" and w = empty_world
        and x = PNone, OF c refl]
    by (simp add: test_settings_def empty_world_def)
qed

text \<open>
  C3, as stated, fails: an upload with the empty path and a signed-URL request with a
  negative ttl are both sent to the service, and return what the service answers.
\<close>

theorem unvalidated_arguments_counterexample:
  "upload_bytes test_settings (fake_service 10 (\<lambda>p. [''signedURL'' \<mapsto> PStr (''https://cdn/'' @ p)]))
      \<lparr>client = 0\<rparr> [] [7] None empty_world
     = (Inr [],
        \<lparr>events = [Call 0 (Upload (PStr ''pdfs'') [] [7] [''upsert'' \<mapsto> PBool True])],
         remote = [(PStr ''pdfs'', []) \<mapsto> [7]]\<rparr>)
   \<and> signed_url test_settings (fake_service 10 (\<lambda>p. [''signedURL'' \<mapsto> PStr (''https://cdn/'' @ p)]))
      \<lparr>client = 0\<rparr> ''lesson.pdf'' (Some (- 5)) None stocked_world
     = (Inr (PStr ''https://cdn/lesson.pdf''),
        \<lparr>events = [Create (PStr ''https://project.supabase.co'') (PStr ''service-role-key''),
                   Call 0 (CreateSignedUrl (PStr ''pdfs'') ''lesson.pdf'' (- 5))],
         remote = [(PStr ''pdfs'', ''lesson.pdf'') \<mapsto> [1, 2, 3]]\<rparr>)"
  by (simp add: upload_bytes_def signed_url_def client_upload_def client_create_signed_url_def
        fake_service_def test_settings_def empty_world_def stocked_world_def dict_get_def Let_def)

text \<open>
  C3, amended. Neither function checks its arguments. Whatever the path and the ttl are
  (the empty path, a zero or negative ttl), the function sends them unchanged in its one
  request, and the outcome is the service's: an error exactly when the service raises one.
\<close>

theorem arguments_passed_unchecked:
  assumes bucket: "bucket = py_or (case b of None \<Rightarrow> PNone | Some x \<Rightarrow> x) (SUPABASE_BUCKET st)"
    and ttl: "ttl = (case n of None \<Rightarrow> 60 | Some k \<Rightarrow> k)"
    and opts: "opts = [''upsert'' \<mapsto> PBool True]"
  shows "upload_bytes st srv m p payload b w
           = (case on_upload srv bucket p payload opts (remote w) of
                (r, s) \<Rightarrow>
                  (case r of Inl e \<Rightarrow> Inl e | Inr u \<Rightarrow> Inr p,
                   \<lparr>events = events w @ [Call (client m) (Upload bucket p payload opts)],
                      remote = s\<rparr>))
       \<and> signed_url st srv m p n b w
           = (case on_create_signed_url srv bucket p ttl (remote w) of
                (r, s) \<Rightarrow>
                  (case r of
                     Inl e \<Rightarrow> Inl e
                   | Inr res \<Rightarrow> Inr (py_or (dict_get res ''signedURL'') (dict_get res ''signed_url'')),
                   \<lparr>events = events w @ [Call (client m) (CreateSignedUrl bucket p ttl)],
                      remote = s\<rparr>))"
  unfolding bucket ttl opts
  by (simp add: upload_bytes_def signed_url_def client_upload_def client_create_signed_url_def
        Let_def split: prod.splits sum.splits)

theorem arguments_passed_unchecked_witness:
  "fst (upload_bytes test_settings (fake_service 10 (\<lambda>p. Map.empty)) \<lparr>client = 0\<rparr>
          [] [7] None empty_world) = Inr []
   \<and> events (snd (signed_url test_settings (fake_service 10 (\<lambda>p. Map.empty)) \<lparr>client = 0\<rparr>
          ''lesson.pdf'' (Some 0) None empty_world))
       = [Call 0 (CreateSignedUrl (PStr ''pdfs'') ''lesson.pdf'' 0)]"
proof -
  have b: "PStr ''pdfs'' = py_or (case None of None \<Rightarrow> PNone | Some x \<Rightarrow> x)
                              (SUPABASE_BUCKET test_settings)"
    by (simp add: test_settings_def)
  have c: "(0::int) = (case Some 0 of None \<Rightarrow> 60 | Some k \<Rightarrow> k)"
    by simp
  show ?thesis
    using arguments_passed_unchecked [where srv = "fake_service 10 (\<lambda>p. Map.empty)"
            and m = "\<lparr>client = 0\<rparr>" and p = "[]" and payload = "[7]" and w = empty_world,
            OF b c refl]
          arguments_passed_unchecked [where srv = "fake_service 10 (\<lambda>p. Map.empty)"
            and m = "\<lparr>client = 0\<rparr>" and p = "''lesson.pdf''" and payload = "[7]" and w = empty_world,
            OF b c refl]
    by (simp add: fake_service_def empty_world_def)
qed



text \<open>
  C5. Whenever the storage call succeeds, \<open>upload_bytes\<close> returns exactly the path
  it was given, for every path, payload and bucket.
\<close>

theorem upload_bytes_returns_path:
  assumes bucket: "bucket = py_or (case b of None \<Rightarrow> PNone | Some x \<Rightarrow> x) (SUPABASE_BUCKET st)"
    and success: "fst (on_upload srv bucket p payload [''upsert'' \<mapsto> PBool True] (remote w)) = Inr u"
  shows "fst (upload_bytes st srv m p payload b w) = Inr p"
  using success unfolding bucket
  by (simp add: upload_bytes_result)

theorem upload_bytes_returns_path_witness:
  "fst (on_upload (fake_service 10 (\<lambda>p. Map.empty)) (PStr ''videos'') ''week1/lesson.pdf'' [37, 80]
          [''upsert'' \<mapsto> PBool True] (remote stocked_world)) = Inr ()
   \<and> fst (upload_bytes test_settings (fake_service 10 (\<lambda>p. Map.empty)) \<lparr>client = 0\<rparr>
            ''week1/lesson.pdf'' [37, 80] (Some (PStr ''videos'')) stocked_world)
       = Inr ''week1/lesson.pdf''"
proof -
  have a: "fst (on_upload (fake_service 10 (\<lambda>p. Map.empty)) (PStr ''videos'') ''week1/lesson.pdf''
                  [37, 80] [''upsert'' \<mapsto> PBool True] (remote stocked_world)) = Inr ()"
    by (simp add: fake_service_def stocked_world_def)
  have b: "PStr ''videos'' = py_or (case Some (PStr ''videos'') of None \<Rightarrow> PNone | Some x \<Rightarrow> x)
                              (SUPABASE_BUCKET test_settings)"
    by simp
  show ?thesis
    using a upload_bytes_returns_path [where m = "\<lparr>client = 0\<rparr>", OF b a]
    by simp
qed

text \<open>
  C6. An operation fails exactly when its one client call fails, and then with the
  very error the client raised: the error type is the service's, and the module adds no
  error of its own. Whether the call fails or not, the operation sends one request and
  leaves the remote state as that one request left it: no retry, no recovery.
\<close>

theorem failures_propagate:
  assumes bucket: "bucket = py_or (case b of None \<Rightarrow> PNone | Some x \<Rightarrow> x) (SUPABASE_BUCKET st)"
    and ttl: "ttl = (case n of None \<Rightarrow> 60 | Some k \<Rightarrow> k)"
    and opts: "opts = [''upsert'' \<mapsto> PBool True]"
  shows "(fst (upload_bytes st srv m p payload b w) = Inl e)
           = (fst (on_upload srv bucket p payload opts (remote w)) = Inl e)
       \<and> events (snd (upload_bytes st srv m p payload b w))
           = events w @ [Call (client m) (Upload bucket p payload opts)]
       \<and> remote (snd (upload_bytes st srv m p payload b w))
           = snd (on_upload srv bucket p payload opts (remote w))
       \<and> (fst (signed_url st srv m p n b w) = Inl e)
           = (fst (on_create_signed_url srv bucket p ttl (remote w)) = Inl e)
       \<and> events (snd (signed_url st srv m p n b w))
           = events w @ [Call (client m) (CreateSignedUrl bucket p ttl)]
       \<and> remote (snd (signed_url st srv m p n b w))
           = snd (on_create_signed_url srv bucket p ttl (remote w))"
  unfolding bucket ttl opts
  by (simp add: upload_bytes_result upload_bytes_events upload_bytes_remote
        signed_url_result signed_url_events signed_url_remote split: sum.splits)

theorem failures_propagate_witness:
  "fst (upload_bytes test_settings (fake_service 2 (\<lambda>p. Map.empty)) \<lparr>client = 0\<rparr>
          ''big.pdf'' [1, 2, 3] None empty_world) = Inl TooLarge
   \<and> events (snd (upload_bytes test_settings (fake_service 2 (\<lambda>p. Map.empty)) \<lparr>client = 0\<rparr>
          ''big.pdf'' [1, 2, 3] None empty_world))
       = [Call 0 (Upload (PStr ''pdfs'') ''big.pdf'' [1, 2, 3] [''upsert'' \<mapsto> PBool True])]
   \<and> fst (signed_url test_settings (fake_service 2 (\<lambda>p. Map.empty)) \<lparr>client = 0\<rparr>
          ''big.pdf'' None None empty_world) = Inl NotFound
   \<and> events (snd (signed_url test_settings (fake_service 2 (\<lambda>p. Map.empty)) \<lparr>client = 0\<rparr>
          ''big.pdf'' None None empty_world))
       = [Call 0 (CreateSignedUrl (PStr ''pdfs'') ''big.pdf'' 60)]"
proof -
  have b: "PStr ''pdfs'' = py_or (case None of None \<Rightarrow> PNone | Some x \<Rightarrow> x)
                              (SUPABASE_BUCKET test_settings)"
    by (simp add: test_settings_def)
  have c: "(60::int) = (case None of None \<Rightarrow> 60 | Some k \<Rightarrow> k)"
    by simp
  have u: "fst (on_upload (fake_service 2 (\<lambda>p. Map.empty)) (PStr ''pdfs'') ''big.pdf'' [1, 2, 3]
                  [''upsert'' \<mapsto> PBool True] (remote empty_world)) = Inl TooLarge"
    by (simp add: fake_service_def empty_world_def)
  have s: "fst (on_create_signed_url (fake_service 2 (\<lambda>p. Map.empty)) (PStr ''pdfs'') ''big.pdf'' 60
                  (remote empty_world)) = Inl NotFound"
    by (simp add: fake_service_def empty_world_def)
  show ?thesis
    using failures_propagate [where st = test_settings and srv = "fake_service 2 (\<lambda>p. Map.empty)"
            and m = "\<lparr>client = 0\<rparr>" and p = "''big.pdf''" and payload = "[1, 2, 3]"
            and w = empty_world and e = TooLarge, OF b c refl]
          failures_propagate [where st = test_settings and srv = "fake_service 2 (\<lambda>p. Map.empty)"
            and m = "\<lparr>client = 0\<rparr>" and p = "''big.pdf''" and payload = "[1, 2, 3]"
            and w = empty_world and e = NotFound, OF b c refl]
          u s
    by (simp add: empty_world_def)
qed

text \<open>
  C7. Called without an expiry argument, \<open>signed_url\<close> asks the service for a signed
  URL with a ttl of exactly 60 seconds.
\<close>

theorem signed_url_default_expiry:
  "events (snd (signed_url st srv m p None b w)) =
     events w @ [Call (client m)
       (CreateSignedUrl (py_or (case b of None \<Rightarrow> PNone | Some x \<Rightarrow> x) (SUPABASE_BUCKET st)) p 60)]
   \<and> remote (snd (signed_url st srv m p None b w)) =
     snd (on_create_signed_url srv
            (py_or (case b of None \<Rightarrow> PNone | Some x \<Rightarrow> x) (SUPABASE_BUCKET st)) p 60 (remote w))"
  by (simp add: signed_url_events signed_url_remote)

text \<open>
  C8. In every process, the log starts with the one construction of a client, from
  \<^verbatim>\<open>settings.SUPABASE_URL\<close> and \<^verbatim>\<open>settings.SUPABASE_SERVICE_ROLE\<close>, at module load.
  Everything after it is a request sent through that client (handle 0), one per call of
  \<open>upload_bytes\<close> or \<open>signed_url\<close>: no call constructs another client and none
  tears the client down. When the construction raises there is no module and no call.
\<close>

theorem one_shared_client:
  "\<exists>reqs. events (snd (process st srv is s0))
             = Create (SUPABASE_URL st) (SUPABASE_SERVICE_ROLE st) # map (Call 0) reqs
         \<and> length reqs
             = (if on_create srv (SUPABASE_URL st) (SUPABASE_SERVICE_ROLE st) = None
                then length is else 0)"
proof (cases "on_create srv (SUPABASE_URL st) (SUPABASE_SERVICE_ROLE st)")
  case (Some e)
  then have "events (snd (process st srv is s0))
               = [Create (SUPABASE_URL st) (SUPABASE_SERVICE_ROLE st)]"
    by (simp add: process_def load_storage_def create_client_def)
  with Some show ?thesis by simp
next
  case None
  let ?w = "\<lparr>events = [Create (SUPABASE_URL st) (SUPABASE_SERVICE_ROLE st)], remote = s0\<rparr>"
  from None have loaded:
    "load_storage st srv \<lparr>events = [], remote = s0\<rparr> = (Inr \<lparr>client = 0\<rparr>, ?w)"
    by (simp add: load_storage_def create_client_def)
  then have "snd (process st srv is s0) = snd (run st srv \<lparr>client = 0\<rparr> is ?w)"
    by (simp add: process_def split: prod.splits)
  moreover obtain reqs where
    "events (snd (run st srv \<lparr>client = 0\<rparr> is ?w))
       = events ?w @ map (Call (client \<lparr>client = 0\<rparr>)) reqs"
    "length reqs = length is"
    using run_events by blast
  ultimately have
    "events (snd (process st srv is s0))
       = Create (SUPABASE_URL st) (SUPABASE_SERVICE_ROLE st) # map (Call 0) reqs
     \<and> length reqs = length is"
    by simp
  with None show ?thesis by auto
qed

text \<open>
  C9. The value under \<^verbatim>\<open>signedURL\<close> wins when it is truthy. When the response
  also holds a value under \<^verbatim>\<open>signed_url\<close>, that value is returned not only when
  \<^verbatim>\<open>signedURL\<close> is missing but also when it maps to a falsy value such as
  \<^verbatim>\<open>None\<close> or the empty string.
\<close>

theorem signed_url_falsy_fallback:
  assumes bucket: "bucket = py_or (case b of None \<Rightarrow> PNone | Some x \<Rightarrow> x) (SUPABASE_BUCKET st)"
    and ttl: "ttl = (case n of None \<Rightarrow> 60 | Some k \<Rightarrow> k)"
    and answer: "fst (on_create_signed_url srv bucket p ttl (remote w)) = Inr res"
    and other: "res ''signed_url'' = Some u"
  shows "(res ''signedURL'' = Some v \<and> truthy v \<longrightarrow>
            fst (signed_url st srv m p n b w) = Inr v)
       \<and> (res ''signedURL'' = Some v \<and> \<not> truthy v \<longrightarrow>
            fst (signed_url st srv m p n b w) = Inr u)
       \<and> (res ''signedURL'' = None \<longrightarrow>
            fst (signed_url st srv m p n b w) = Inr u)"
  using answer other unfolding bucket ttl
  by (simp add: signed_url_result)

theorem signed_url_falsy_fallback_witness:
  "fst (signed_url test_settings
          (fake_service 10 (\<lambda>p. [''signedURL'' \<mapsto> PNone, ''signed_url'' \<mapsto> PStr ''https://cdn/b'']))
          \<lparr>client = 0\<rparr> ''lesson.pdf'' (Some 30) (Some (PStr ''pdfs'')) stocked_world)
     = Inr (PStr ''https://cdn/b'')
   \<and> fst (signed_url test_settings
          (fake_service 10 (\<lambda>p. [''signedURL'' \<mapsto> PStr [], ''signed_url'' \<mapsto> PStr ''https://cdn/b'']))
          \<lparr>client = 0\<rparr> ''lesson.pdf'' (Some 30) (Some (PStr ''pdfs'')) stocked_world)
     = Inr (PStr ''https://cdn/b'')
   \<and> fst (signed_url test_settings
          (fake_service 10 (\<lambda>p. [''signedURL'' \<mapsto> PStr ''https://cdn/a'', ''signed_url'' \<mapsto> PStr ''https://cdn/b'']))
          \<lparr>client = 0\<rparr> ''lesson.pdf'' (Some 30) (Some (PStr ''pdfs'')) stocked_world)
     = Inr (PStr ''https://cdn/a'')"
proof -
  have a: "fst (on_create_signed_url (fake_service 10 sign) (PStr ''pdfs'') ''lesson.pdf'' 30
                  (remote stocked_world)) = Inr (sign ''lesson.pdf'')" for sign
    by (simp add: fake_service_def stocked_world_def)
  have b: "PStr ''pdfs'' = py_or (case Some (PStr ''pdfs'') of None \<Rightarrow> PNone | Some x \<Rightarrow> x)
                              (SUPABASE_BUCKET test_settings)"
    by simp
  have c: "(30::int) = (case Some 30 of None \<Rightarrow> 60 | Some k \<Rightarrow> k)"
    by simp
  show ?thesis
    using signed_url_falsy_fallback [OF b c a, of "\<lambda>p. [''signedURL'' \<mapsto> PNone, ''signed_url'' \<mapsto> PStr ''https://cdn/b'']" "PStr ''https://cdn/b''" PNone "\<lparr>client = 0\<rparr>"]
          signed_url_falsy_fallback [OF b c a, of "\<lambda>p. [''signedURL'' \<mapsto> PStr [], ''signed_url'' \<mapsto> PStr ''https://cdn/b'']" "PStr ''https://cdn/b''" "PStr []" "\<lparr>client = 0\<rparr>"]
          signed_url_falsy_fallback [OF b c a, of "\<lambda>p. [''signedURL'' \<mapsto> PStr ''https://cdn/a'', ''signed_url'' \<mapsto> PStr ''https://cdn/b'']" "PStr ''https://cdn/b''" "PStr ''https://cdn/a''" "\<lparr>client = 0\<rparr>"]
    by simp
qed

text \<open>
  C10. Loaded into a site that holds none of them yet, the admin module adds exactly five
  registrations: \<open>PDFDocument\<close>, \<open>Course\<close>, \<open>Lesson\<close>, \<open>LessonPDF\<close> and
  \<open>Enrollment\<close>. \<open>Lesson\<close> is registered with \<open>LessonAdmin\<close>, whose
  \<^verbatim>\<open>list_display\<close> is title, course, created_at and whose only inline is a tabular
  inline for \<open>LessonPDF\<close> with one extra blank form.
\<close>

theorem admin_registers_five_models:
  assumes fresh: "\<forall>mdl \<in> {PDFDocument, Course, Lesson, LessonPDF, Enrollment}. mdl \<notin> fst ` set site"
  shows "admin_module site
           = Inr (site @ [(PDFDocument, ModelAdmin), (Course, ModelAdmin), (Lesson, LessonAdmin),
                          (LessonPDF, ModelAdmin), (Enrollment, ModelAdmin)])
       \<and> list_display LessonAdmin = [''title'', ''course'', ''created_at'']
       \<and> inlines LessonAdmin = [LessonPDFInline]
       \<and> base LessonPDFInline = TabularInline
       \<and> inline_model LessonPDFInline = LessonPDF
       \<and> extra LessonPDFInline = 1"
  using fresh
  by (simp add: admin_module_def register_def LessonAdmin_def LessonPDFInline_def)

theorem admin_registers_five_models_witness:
  "admin_module [(OtherModel ''auth.User'', ModelAdmin)]
     = Inr [(OtherModel ''auth.User'', ModelAdmin),
            (PDFDocument, ModelAdmin), (Course, ModelAdmin), (Lesson, LessonAdmin),
            (LessonPDF, ModelAdmin), (Enrollment, ModelAdmin)]
   \<and> map fst [(OtherModel ''auth.User'', ModelAdmin),
            (PDFDocument, ModelAdmin), (Course, ModelAdmin), (Lesson, LessonAdmin),
            (LessonPDF, ModelAdmin), (Enrollment, ModelAdmin)]
     = [OtherModel ''auth.User'', PDFDocument, Course, Lesson, LessonPDF, Enrollment]"
proof -
  have fresh: "\<forall>mdl \<in> {PDFDocument, Course, Lesson, LessonPDF, Enrollment}.
                 mdl \<notin> fst ` set [(OtherModel ''auth.User'', ModelAdmin)]"
    by simp
  show ?thesis
    using admin_registers_five_models [OF fresh]
    by simp
qed

end
